theory Spec2Isabelle
  imports Complex_Main "HOL-Library.Log_Nat"
begin

section \<open>Calendar dates and wall-clock time\<close>

text \<open>
  The three scripts (\<^verbatim>\<open>signal.py\<close>, \<^verbatim>\<open>server.py\<close>, \<^verbatim>\<open>bid.py\<close>) read the clock with
  \<^verbatim>\<open>datetime.now()\<close> and then only move whole days (\<^verbatim>\<open>timedelta(days=1)\<close>), ask for the
  weekday, compare dates and look at \<^verbatim>\<open>hour\<close> and \<^verbatim>\<open>minute\<close>. A calendar date is
  modelled by its proleptic Gregorian ordinal (Python's \<^verbatim>\<open>date.toordinal()\<close>, day 1 being
  Monday 0001-01-01), so that subtracting one day is subtracting 1 and
  \<^verbatim>\<open>strftime("%Y-%m-%d")\<close>, which is one-to-one on dates, is the identity. The lower end
  of Python's date range (an \<^verbatim>\<open>OverflowError\<close> below year 1) is not modelled: the clock
  never reads a date that close to it.
\<close>

record datetime =
  dt_day :: int
  dt_hour :: nat
  dt_minute :: nat

text \<open>\<^verbatim>\<open>date.weekday()\<close>: Monday is 0, Saturday 5, Sunday 6.\<close>

definition weekday :: "int \<Rightarrow> int" where
  "weekday d = (d + 6) mod 7"

text \<open>
  The loop \<^verbatim>\<open>while today.weekday() >= 5: today = today - timedelta(days=1)\<close>, which every
  resolver runs several times.
\<close>

function skip_weekends :: "int \<Rightarrow> int" where
  "skip_weekends d = (if weekday d \<ge> 5 then skip_weekends (d - 1) else d)"
  by pat_completeness auto
termination
proof (relation "measure (\<lambda>d. nat (weekday d))")
  show "wf (measure (\<lambda>d. nat (weekday d)))" by simp
next
  fix d :: int
  assume "5 \<le> weekday d"
  then have "weekday (d - 1) < weekday d \<and> 0 \<le> weekday (d - 1)"
    unfolding weekday_def by presburger
  then show "(d - 1, d) \<in> measure (\<lambda>d. nat (weekday d))" by simp
qed

declare skip_weekends.simps [simp del]

section \<open>Trading-day resolvers\<close>

text \<open>
  \<^verbatim>\<open>get_trading_days_bid\<close> of \<^verbatim>\<open>signal.py\<close> (lines 135 to 163). The result is the tuple
  \<^verbatim>\<open>(prev_day, today, is_market_open)\<close>.
\<close>

definition get_trading_days_bid :: "datetime \<Rightarrow> int \<times> int \<times> bool" where
  "get_trading_days_bid now =
     (let today = skip_weekends (dt_day now);
          is_today_trading_day = (dt_day now = today);
          is_after_market_open = (dt_hour now > 9 \<or> (dt_hour now = 9 \<and> dt_minute now \<ge> 15));
          is_market_open = (is_today_trading_day \<and> is_after_market_open);
          today = (if \<not> is_market_open then skip_weekends (today - 1) else today);
          prev_day = skip_weekends (today - 1)
      in (prev_day, today, is_market_open))"

text \<open>The copy of the same function in \<^verbatim>\<open>server.py\<close> (lines 111 to 132).\<close>

definition server_get_trading_days_bid :: "datetime \<Rightarrow> int \<times> int \<times> bool" where
  "server_get_trading_days_bid now =
     (let today = skip_weekends (dt_day now);
          is_today_trading_day = (dt_day now = today);
          is_after_market_open = (dt_hour now > 9 \<or> (dt_hour now = 9 \<and> dt_minute now \<ge> 15));
          is_market_open = (is_today_trading_day \<and> is_after_market_open);
          today = (if \<not> is_market_open then skip_weekends (today - 1) else today);
          prev_day = skip_weekends (today - 1)
      in (prev_day, today, is_market_open))"

text \<open>
  \<^verbatim>\<open>get_trading_days\<close> of \<^verbatim>\<open>bid.py\<close> (lines 45 to 62): the day is moved back before the
  weekend loop runs, and there is no market-open flag. The result is
  \<^verbatim>\<open>(prev_day, today)\<close>.
\<close>

definition get_trading_days :: "datetime \<Rightarrow> int \<times> int" where
  "get_trading_days now =
     (let today = dt_day now;
          today = (if dt_hour now < 9 \<or> (dt_hour now = 9 \<and> dt_minute now < 15)
                   then today - 1 else today);
          today = skip_weekends today;
          prev_day = skip_weekends (today - 1)
      in (prev_day, today))"

text \<open>
  \<^verbatim>\<open>get_trading_days_pricegap\<close> (\<^verbatim>\<open>signal.py\<close> lines 166 to 192, and the same text in
  \<^verbatim>\<open>server.py\<close> lines 135 to 153). The result is \<^verbatim>\<open>(date, is_data_available)\<close>.
\<close>

definition get_trading_days_pricegap :: "datetime \<Rightarrow> int \<times> bool" where
  "get_trading_days_pricegap now =
     (let today = skip_weekends (dt_day now);
          is_today_trading_day = (dt_day now = today);
          is_after_close = (dt_hour now > 15 \<or> (dt_hour now = 15 \<and> dt_minute now \<ge> 30));
          is_data_available = (is_today_trading_day \<and> is_after_close);
          today = (if \<not> is_data_available
                   then skip_weekends (if is_today_trading_day then today - 1 else today)
                   else today)
      in (today, is_data_available))"

text \<open>
  \<^verbatim>\<open>get_next_trading_day\<close> (\<^verbatim>\<open>signal.py\<close> lines 443 to 452, \<^verbatim>\<open>server.py\<close> lines 292 to 298):
  tomorrow, moved forward while it is a weekend day. The loop comes first.
\<close>

function skip_weekends_forward :: "int \<Rightarrow> int" where
  "skip_weekends_forward d = (if weekday d \<ge> 5 then skip_weekends_forward (d + 1) else d)"
  by pat_completeness auto
termination
proof (relation "measure (\<lambda>d. if weekday d \<ge> 5 then nat (7 - weekday d) else 0)")
  show "wf (measure (\<lambda>d. if weekday d \<ge> 5 then nat (7 - weekday d) else 0))" by simp
next
  fix d :: int
  assume "5 \<le> weekday d"
  then have "weekday d = 5 \<and> weekday (d + 1) = 6 \<or> weekday d = 6 \<and> weekday (d + 1) = 0"
    unfolding weekday_def by presburger
  then show "(d + 1, d) \<in> measure (\<lambda>d. if weekday d \<ge> 5 then nat (7 - weekday d) else 0)"
    by auto
qed

declare skip_weekends_forward.simps [simp del]

definition get_next_trading_day :: "datetime \<Rightarrow> int" where
  "get_next_trading_day now = skip_weekends_forward (dt_day now + 1)"

section \<open>Python floats\<close>

text \<open>
  Prices are Python floats, that is IEEE 754 binary64 values. A finite value is modelled
  by the rational number it denotes, next to the two infinities and NaN, which the JSON
  decoder and the price feed can both deliver. Every arithmetic operation is the exact
  result rounded once to binary64 (round to nearest, ties to even), as the hardware does.
  The sign of a zero is not modelled: it changes no comparison, no truth test and no
  rounding made here. A JSON integer below \<open>2 ^ 53\<close> behaves in every operation used
  here as the float of the same value. The closes and spot prices that come through the
  price library are numpy float64 scalars, binary64 values as well; \<^verbatim>\<open>round\<close> is
  modelled as the built-in \<^verbatim>\<open>round\<close> of a float.
\<close>

datatype pyfloat = Fin rat | PInf | NInf | NaN

text \<open>The nearest integer, a tie going to the even neighbour.\<close>

definition round_half_even :: "rat \<Rightarrow> int" where
  "round_half_even y =
     (if y - of_int \<lfloor>y\<rfloor> < 1 / 2 then \<lfloor>y\<rfloor>
      else if y - of_int \<lfloor>y\<rfloor> > 1 / 2 then \<lfloor>y\<rfloor> + 1
      else if even \<lfloor>y\<rfloor> then \<lfloor>y\<rfloor> else \<lfloor>y\<rfloor> + 1)"

definition pow2 :: "int \<Rightarrow> rat" where
  "pow2 e = (if 0 \<le> e then 2 ^ nat e else 1 / 2 ^ nat (- e))"

text \<open>The binary exponent of a positive number: \<open>pow2 (ilog2 a) \<le> a < pow2 (ilog2 a + 1)\<close>.\<close>

definition ilog2 :: "rat \<Rightarrow> int" where
  "ilog2 a = (if 1 \<le> a then bitlen \<lfloor>a\<rfloor> - 1 else - bitlen (\<lceil>1 / a\<rceil> - 1))"

text \<open>
  Rounding a number to binary64. The spacing of the binary64 values around \<open>x\<close> is
  \<open>pow2 (quantum x)\<close>: 53 significant bits, and \<open>pow2 (- 1074)\<close> in the subnormal
  range.
  A result of magnitude \<open>2 ^ 1024\<close> or more overflows to an infinity.
\<close>

definition quantum :: "rat \<Rightarrow> int" where
  "quantum x = max (ilog2 \<bar>x\<bar> - 52) (- 1074)"

definition to_grid :: "int \<Rightarrow> rat \<Rightarrow> rat" where
  "to_grid q x = of_int (round_half_even (x / pow2 q)) * pow2 q"

definition finite_or_inf :: "rat \<Rightarrow> pyfloat" where
  "finite_or_inf y =
     (if pow2 1024 \<le> y then PInf else if y \<le> - pow2 1024 then NInf else Fin y)"

definition binary64 :: "rat \<Rightarrow> pyfloat" where
  "binary64 x = (if x = 0 then Fin 0 else finite_or_inf (to_grid (quantum x) x))"

text \<open>\<^verbatim>\<open>a - b\<close> on floats.\<close>

fun fsub :: "pyfloat \<Rightarrow> pyfloat \<Rightarrow> pyfloat" where
  "fsub (Fin x) (Fin y) = binary64 (x - y)"
| "fsub NaN b = NaN"
| "fsub a NaN = NaN"
| "fsub PInf PInf = NaN"
| "fsub NInf NInf = NaN"
| "fsub PInf b = PInf"
| "fsub NInf b = NInf"
| "fsub a PInf = NInf"
| "fsub a NInf = PInf"

text \<open>\<^verbatim>\<open>a * b\<close> on floats.\<close>

fun fmul :: "pyfloat \<Rightarrow> pyfloat \<Rightarrow> pyfloat" where
  "fmul (Fin x) (Fin y) = binary64 (x * y)"
| "fmul NaN b = NaN"
| "fmul a NaN = NaN"
| "fmul (Fin x) PInf = (if x = 0 then NaN else if 0 < x then PInf else NInf)"
| "fmul (Fin x) NInf = (if x = 0 then NaN else if 0 < x then NInf else PInf)"
| "fmul PInf (Fin y) = (if y = 0 then NaN else if 0 < y then PInf else NInf)"
| "fmul NInf (Fin y) = (if y = 0 then NaN else if 0 < y then NInf else PInf)"
| "fmul PInf PInf = PInf"
| "fmul PInf NInf = NInf"
| "fmul NInf PInf = NInf"
| "fmul NInf NInf = PInf"

text \<open>The quotient of two floats for a divisor other than zero.\<close>

fun fquot :: "pyfloat \<Rightarrow> pyfloat \<Rightarrow> pyfloat" where
  "fquot (Fin x) (Fin y) = binary64 (x / y)"
| "fquot NaN b = NaN"
| "fquot a NaN = NaN"
| "fquot (Fin x) PInf = Fin 0"
| "fquot (Fin x) NInf = Fin 0"
| "fquot PInf (Fin y) = (if 0 < y then PInf else NInf)"
| "fquot NInf (Fin y) = (if 0 < y then NInf else PInf)"
| "fquot PInf PInf = NaN"
| "fquot PInf NInf = NaN"
| "fquot NInf PInf = NaN"
| "fquot NInf NInf = NaN"

text \<open>The comparisons \<^verbatim>\<open>x > 0\<close> and \<^verbatim>\<open>x < 0\<close>: both are false for NaN.\<close>

definition gt_zero :: "pyfloat \<Rightarrow> bool" where
  "gt_zero x = (case x of Fin r \<Rightarrow> 0 < r | PInf \<Rightarrow> True | NInf \<Rightarrow> False | NaN \<Rightarrow> False)"

definition lt_zero :: "pyfloat \<Rightarrow> bool" where
  "lt_zero x = (case x of Fin r \<Rightarrow> r < 0 | PInf \<Rightarrow> False | NInf \<Rightarrow> True | NaN \<Rightarrow> False)"

text \<open>
  \<^verbatim>\<open>round(x, 2)\<close> on a float: NaN and the infinities are returned as they are; for a
  finite \<open>x\<close> the exact value of \<open>x\<close> is rounded to two decimal places, a tie going to
  the even digit, and the decimal so found is converted to the nearest float.
\<close>

definition py_round2 :: "pyfloat \<Rightarrow> pyfloat" where
  "py_round2 x =
     (case x of Fin r \<Rightarrow> binary64 (of_int (round_half_even (r * 100)) / 100) | _ \<Rightarrow> x)"

section \<open>What a run reads from outside\<close>

text \<open>
  A minute candle is the JSON array \<^verbatim>\<open>[timestamp, open, high, low, close, volume, ...]\<close>.
  \<open>c_ts\<close> is its element 0, \<open>c_vals\<close> are the elements from index 1 on, so that
  \<^verbatim>\<open>candle[1]\<close> (the open) is \<open>c_vals ! 0\<close> and \<^verbatim>\<open>candle[4]\<close> (the close) is
  \<open>c_vals ! 3\<close>; a candle that is too short has no such element and the source's
  index raises \<^verbatim>\<open>IndexError\<close>.
\<close>

record candle =
  c_ts :: string
  c_vals :: "pyfloat list"

datatype instrument = NIFTY | SENSEX

text \<open>
  Everything a run obtains from its surroundings, read once: the clock, the configured
  token (\<^verbatim>\<open>load_access_token\<close>), the provider's answers (\<^verbatim>\<open>get_expiry_dates\<close>, the
  candle list of the historical or intraday candle request, \<open>None\<close> when the request
  fails or the payload has no candles, \<^verbatim>\<open>get_daily_close\<close>, \<^verbatim>\<open>get_spot_price\<close>), and the
  two library parsers the code calls: \<^verbatim>\<open>datetime.strptime(s, "%Y-%m-%d")\<close> as the ordinal
  of the parsed date and \<^verbatim>\<open>datetime.fromisoformat(s.replace('+05:30', ''))\<close> as the
  parsed (hour, minute), each \<open>None\<close> where the library raises.
\<close>

record env =
  env_now :: datetime
  env_access_token :: "string option"
  env_expiry_dates :: "instrument \<Rightarrow> string list"
  env_candles :: "string \<Rightarrow> int \<Rightarrow> candle list option"
  env_daily_close :: "string \<Rightarrow> pyfloat option"
  env_spot_price :: "instrument \<Rightarrow> pyfloat option"
  env_strptime :: "string \<Rightarrow> int option"
  env_fromisoformat :: "string \<Rightarrow> (nat \<times> nat) option"

datatype error = NoAccessToken | NoValidExpiry | ZeroDivisionError

text \<open>
  Python truthiness of an optional string and of an optional number: a float is true
  unless it is zero, so NaN is true.
\<close>

definition truthy_str :: "string option \<Rightarrow> bool" where
  "truthy_str v = (case v of None \<Rightarrow> False | Some s \<Rightarrow> s \<noteq> [])"

definition truthy_num :: "pyfloat option \<Rightarrow> bool" where
  "truthy_num v = (case v of None \<Rightarrow> False | Some x \<Rightarrow> x \<noteq> Fin 0)"

text \<open>\<^verbatim>\<open>a / b\<close> on floats: raises \<^verbatim>\<open>ZeroDivisionError\<close> when \<open>b\<close> is zero.\<close>

definition truediv :: "pyfloat \<Rightarrow> pyfloat \<Rightarrow> error + pyfloat" where
  "truediv a b = (if b = Fin 0 then Inl ZeroDivisionError else Inr (fquot a b))"

section \<open>Expiry selector\<close>

text \<open>
  \<^verbatim>\<open>calculate_dte\<close>: both datetimes are at midnight, so \<^verbatim>\<open>(expiry - today).days\<close> is the
  difference of the ordinals; 999 when the date does not parse.
\<close>

definition calculate_dte :: "(string \<Rightarrow> int option) \<Rightarrow> string \<Rightarrow> int \<Rightarrow> int" where
  "calculate_dte strptime expiry_date today =
     (case strptime expiry_date of Some expiry \<Rightarrow> expiry - today | None \<Rightarrow> 999)"

text \<open>
  The two search loops of \<^verbatim>\<open>get_nearest_expiry_instrument\<close> differ in the upper bound of
  the window only (2 for Nifty, 1 for Sensex), which is the parameter \<open>hi\<close> here. The
  result is the pair of loop variables \<^verbatim>\<open>(dte, expiry)\<close>, which start as
  \<^verbatim>\<open>(999, None)\<close> and are set at the \<^verbatim>\<open>break\<close>.
\<close>

fun expiry_scan :: "(string \<Rightarrow> int option) \<Rightarrow> int \<Rightarrow> int \<Rightarrow> string list \<Rightarrow> int \<times> string option" where
  "expiry_scan strptime today hi [] = (999, None)"
| "expiry_scan strptime today hi (exp_date # rest) =
     (let dte = calculate_dte strptime exp_date today
      in if 0 \<le> dte \<and> dte \<le> hi then (dte, Some exp_date)
         else expiry_scan strptime today hi rest)"

text \<open>
  \<^verbatim>\<open>get_nearest_expiry_instrument\<close> (\<^verbatim>\<open>signal.py\<close> lines 90 to 132, \<^verbatim>\<open>server.py\<close> lines 81
  to 108). \<open>None\<close> stands for the source's \<^verbatim>\<open>(None, None, None)\<close>.
\<close>

definition get_nearest_expiry_instrument :: "env \<Rightarrow> (instrument \<times> string \<times> int) option" where
  "get_nearest_expiry_instrument e =
     (let today = dt_day (env_now e);
          nifty_expiries = env_expiry_dates e NIFTY;
          sensex_expiries = env_expiry_dates e SENSEX;
          (nifty_dte, nifty_expiry) = expiry_scan (env_strptime e) today 2 nifty_expiries;
          (sensex_dte, sensex_expiry) = expiry_scan (env_strptime e) today 1 sensex_expiries
      in if nifty_dte \<le> sensex_dte \<and> truthy_str nifty_expiry
           then map_option (\<lambda>x. (NIFTY, x, nifty_dte)) nifty_expiry
         else if truthy_str sensex_expiry
           then map_option (\<lambda>x. (SENSEX, x, sensex_dte)) sensex_expiry
         else if truthy_str nifty_expiry
           then map_option (\<lambda>x. (NIFTY, x, nifty_dte)) nifty_expiry
         else None)"

text \<open>
  \<^verbatim>\<open>get_dte_for_instrument_tomorrow\<close>: the first expiry that is not before the next
  trading day, with its DTE counted from that day.
\<close>

fun first_future_expiry :: "(string \<Rightarrow> int option) \<Rightarrow> int \<Rightarrow> string list \<Rightarrow> (int \<times> string) option" where
  "first_future_expiry strptime day [] = None"
| "first_future_expiry strptime day (exp_date # rest) =
     (let dte = calculate_dte strptime exp_date day
      in if dte \<ge> 0 then Some (dte, exp_date) else first_future_expiry strptime day rest)"

definition get_dte_for_instrument_tomorrow :: "env \<Rightarrow> instrument \<Rightarrow> (int \<times> string) option" where
  "get_dte_for_instrument_tomorrow e instrument =
     (let next_trading_day = get_next_trading_day (env_now e);
          expiries = env_expiry_dates e instrument
      in first_future_expiry (env_strptime e) next_trading_day expiries)"

section \<open>Price-point extraction\<close>

text \<open>Python's comparison \<^verbatim>\<open>(hour, minute) > best_time\<close> of two pairs.\<close>

definition tuple_gt :: "nat \<times> nat \<Rightarrow> nat \<times> nat \<Rightarrow> bool" where
  "tuple_gt a b = (fst a > fst b \<or> (fst a = fst b \<and> snd a > snd b))"

text \<open>
  One round of the scan of \<^verbatim>\<open>get_330_ltp\<close> over the loop variables
  \<^verbatim>\<open>(best_candle, best_time)\<close>. A timestamp that does not parse raises inside the
  \<^verbatim>\<open>try\<close> and the round is skipped (\<^verbatim>\<open>except: continue\<close>).
\<close>

definition ltp_round ::
  "(string \<Rightarrow> (nat \<times> nat) option) \<Rightarrow> candle option \<times> (nat \<times> nat) option \<Rightarrow> candle
     \<Rightarrow> candle option \<times> (nat \<times> nat) option" where
  "ltp_round fromiso st candle =
     (case fromiso (c_ts candle) of
        None \<Rightarrow> st
      | Some (hour, minute) \<Rightarrow>
          (case st of (best_candle, best_time) \<Rightarrow>
             if hour = 15 \<and> minute \<le> 29 then
               (case best_time of
                  None \<Rightarrow> (Some candle, Some (hour, minute))
                | Some bt \<Rightarrow> if tuple_gt (hour, minute) bt
                             then (Some candle, Some (hour, minute)) else st)
             else if hour < 15 then
               (case best_time of
                  None \<Rightarrow> (Some candle, Some (hour, minute))
                | Some bt \<Rightarrow> if tuple_gt (hour, minute) bt
                             then (Some candle, Some (hour, minute)) else st)
             else st))"

fun ltp_scan ::
  "(string \<Rightarrow> (nat \<times> nat) option) \<Rightarrow> candle list \<Rightarrow> candle option \<times> (nat \<times> nat) option
     \<Rightarrow> candle option \<times> (nat \<times> nat) option" where
  "ltp_scan fromiso [] st = st"
| "ltp_scan fromiso (candle # rest) st = ltp_scan fromiso rest (ltp_round fromiso st candle)"

text \<open>
  What \<^verbatim>\<open>get_330_ltp\<close> does with the candle list of a response (\<^verbatim>\<open>signal.py\<close> lines 213
  to 238, \<^verbatim>\<open>server.py\<close> lines 173 to 196, \<^verbatim>\<open>bid.py\<close> lines 77 to 101, the same text in
  all three). A chosen candle is a non-empty array, hence true in \<^verbatim>\<open>if best_candle\<close>;
  \<^verbatim>\<open>best_candle[4]\<close> on a short candle raises, the outer \<^verbatim>\<open>except\<close> catches it and the
  function returns \<^verbatim>\<open>None\<close>: \<open>candle_close\<close> is that read, \<open>None\<close> where it raises.
\<close>

definition candle_close :: "candle \<Rightarrow> pyfloat option" where
  "candle_close candle = (if 3 < length (c_vals candle) then Some (c_vals candle ! 3) else None)"

definition ltp_of_candles :: "(string \<Rightarrow> (nat \<times> nat) option) \<Rightarrow> candle list \<Rightarrow> pyfloat option" where
  "ltp_of_candles fromiso candles =
     (case ltp_scan fromiso candles (None, None) of
        (None, _) \<Rightarrow> None
      | (Some best_candle, _) \<Rightarrow> candle_close best_candle)"

definition get_330_ltp :: "env \<Rightarrow> string \<Rightarrow> int \<Rightarrow> pyfloat option" where
  "get_330_ltp e instrument_key date =
     (case env_candles e instrument_key date of
        None \<Rightarrow> None
      | Some candles \<Rightarrow> ltp_of_candles (env_fromisoformat e) candles)"

text \<open>
  \<^verbatim>\<open>get_915_open\<close>: the open of the first candle stamped 09:15. Here the \<^verbatim>\<open>return\<close> is
  inside the inner \<^verbatim>\<open>try\<close>, so a candle without an open is skipped.
\<close>

fun open_of_candles :: "(string \<Rightarrow> (nat \<times> nat) option) \<Rightarrow> candle list \<Rightarrow> pyfloat option" where
  "open_of_candles fromiso [] = None"
| "open_of_candles fromiso (candle # rest) =
     (case fromiso (c_ts candle) of
        None \<Rightarrow> open_of_candles fromiso rest
      | Some (hour, minute) \<Rightarrow>
          if hour = 9 \<and> minute = 15 then
            (case c_vals candle of
               [] \<Rightarrow> open_of_candles fromiso rest
             | v # _ \<Rightarrow> Some v)
          else open_of_candles fromiso rest)"

definition get_915_open :: "env \<Rightarrow> string \<Rightarrow> int \<Rightarrow> pyfloat option" where
  "get_915_open e instrument_key date =
     (case env_candles e instrument_key date of
        None \<Rightarrow> None
      | Some candles \<Rightarrow> open_of_candles (env_fromisoformat e) candles)"

section \<open>Signal computer\<close>

datatype direction = Up | Down | Flat

text \<open>
  \<^verbatim>\<open>format_gap\<close> (\<^verbatim>\<open>signal.py\<close> lines 294 to 312). The colour and the arrow it also returns
  are fixed by the direction, and the text it returns prints \<open>gap\<close> and \<open>gap_pct\<close>; the
  model returns the direction and \<open>gap_pct\<close>.
\<close>

definition format_gap :: "pyfloat \<Rightarrow> pyfloat \<Rightarrow> error + direction \<times> pyfloat" where
  "format_gap gap base =
     (case (if base \<noteq> Fin 0
            then (case truediv gap base of
                    Inl err \<Rightarrow> Inl err
                  | Inr q \<Rightarrow> Inr (py_round2 (fmul q (Fin 100))))
            else Inr (Fin 0)) of
        Inl err \<Rightarrow> Inl err
      | Inr gap_pct \<Rightarrow>
          Inr (if gt_zero gap then Up else if lt_zero gap then Down else Flat, gap_pct))"

record gap_result =
  g_gap :: pyfloat
  g_gap_pct :: pyfloat
  g_direction :: direction

text \<open>What a signal section of the command-line report shows.\<close>

datatype section_out = Shown gap_result | MarketNotOpenYet | DataNotAvailable

text \<open>
  The BID section of \<^verbatim>\<open>main\<close> in \<^verbatim>\<open>signal.py\<close> (lines 592 to 607). The values are read
  with \<open>the\<close> under the guard \<^verbatim>\<open>if ltp_330_prev and open_915_today\<close> only.
\<close>

definition main_bid_section :: "pyfloat option \<Rightarrow> pyfloat option \<Rightarrow> bool \<Rightarrow> error + section_out" where
  "main_bid_section ltp_330_prev open_915_today is_market_open =
     (if truthy_num ltp_330_prev \<and> truthy_num open_915_today then
        (let bid_gap = py_round2 (fsub (the open_915_today) (the ltp_330_prev))
         in case format_gap bid_gap (the ltp_330_prev) of
              Inl err \<Rightarrow> Inl err
            | Inr (direction, gap_pct) \<Rightarrow>
                Inr (Shown \<lparr>g_gap = bid_gap, g_gap_pct = gap_pct, g_direction = direction\<rparr>))
      else if \<not> is_market_open then Inr MarketNotOpenYet
      else Inr DataNotAvailable)"

text \<open>The PriceGap section of the same \<^verbatim>\<open>main\<close> (lines 618 to 630).\<close>

definition main_pricegap_section :: "pyfloat option \<Rightarrow> pyfloat option \<Rightarrow> error + section_out" where
  "main_pricegap_section ltp_330 daily_close =
     (if truthy_num ltp_330 \<and> truthy_num daily_close then
        (let pricegap = py_round2 (fsub (the ltp_330) (the daily_close))
         in case format_gap pricegap (the daily_close) of
              Inl err \<Rightarrow> Inl err
            | Inr (direction, gap_pct) \<Rightarrow>
                Inr (Shown \<lparr>g_gap = pricegap, g_gap_pct = gap_pct, g_direction = direction\<rparr>))
      else Inr DataNotAvailable)"

text \<open>The static table \<^verbatim>\<open>INSTRUMENTS[instrument]["index_key"]\<close>.\<close>

definition index_key_of :: "instrument \<Rightarrow> string" where
  "index_key_of instrument =
     (case instrument of NIFTY \<Rightarrow> ''NSE_INDEX|Nifty 50'' | SENSEX \<Rightarrow> ''BSE_INDEX|SENSEX'')"

text \<open>
  \<^verbatim>\<open>main\<close> of \<^verbatim>\<open>signal.py\<close> (lines 548 to 648) as far as the header and the two gap
  sections go: the report holds what the header and these sections print. The run stops
  with a message when no token or no instrument is found.
\<close>

record report =
  rp_instrument :: instrument
  rp_expiry_date :: string
  rp_dte :: int
  rp_bid :: section_out
  rp_pricegap :: section_out

definition signal_main :: "env \<Rightarrow> error + report" where
  "signal_main e =
     (if \<not> truthy_str (env_access_token e) then Inl NoAccessToken
      else case get_nearest_expiry_instrument e of
        None \<Rightarrow> Inl NoValidExpiry
      | Some (instrument, expiry_date, dte) \<Rightarrow>
          (let index_key = index_key_of instrument;
               (bid_prev_day, bid_today, is_market_open) = get_trading_days_bid (env_now e);
               (pricegap_date, is_after_close) = get_trading_days_pricegap (env_now e);
               trading_day_dte = max 0 (dte - 1);
               ltp_330_prev = get_330_ltp e index_key bid_prev_day;
               open_915_today = get_915_open e index_key bid_today
           in case main_bid_section ltp_330_prev open_915_today is_market_open of
                Inl err \<Rightarrow> Inl err
              | Inr bid \<Rightarrow>
                  (let ltp_330 = get_330_ltp e index_key pricegap_date;
                       daily_close = env_daily_close e index_key
                   in case main_pricegap_section ltp_330 daily_close of
                        Inl err \<Rightarrow> Inl err
                      | Inr pricegap \<Rightarrow>
                          Inr \<lparr>rp_instrument = instrument, rp_expiry_date = expiry_date,
                               rp_dte = trading_day_dte, rp_bid = bid,
                               rp_pricegap = pricegap\<rparr>)))"

section \<open>The signal bundle of the server\<close>

record bid_data =
  bd_ltp_330 :: "pyfloat option"
  bd_open_915 :: "pyfloat option"
  bd_gap :: "pyfloat option"
  bd_gap_pct :: "pyfloat option"
  bd_direction :: "direction option"
  bd_prev_date :: int
  bd_today_date :: int
  bd_market_open :: bool

record pricegap_data =
  pg_ltp_330 :: "pyfloat option"
  pg_daily_close :: "pyfloat option"
  pg_gap :: "pyfloat option"
  pg_gap_pct :: "pyfloat option"
  pg_direction :: "direction option"
  pg_date :: int

record coverage_row =
  cv_name :: instrument
  cv_dte :: int
  cv_spot :: pyfloat
  cv_pct :: pyfloat
  cv_premium :: pyfloat

record signal_bundle =
  b_instrument :: instrument
  b_expiry_date :: string
  b_dte :: int
  b_bid :: bid_data
  b_pricegap :: pricegap_data
  b_coverage :: "coverage_row list"

text \<open>The BID part of \<^verbatim>\<open>get_all_signal_data\<close> (\<^verbatim>\<open>server.py\<close> lines 325 to 346).\<close>

definition server_bid_data :: "env \<Rightarrow> string \<Rightarrow> error + bid_data" where
  "server_bid_data e index_key =
     (let (bid_prev_day, bid_today, is_market_open) = server_get_trading_days_bid (env_now e);
          ltp_330_prev = get_330_ltp e index_key bid_prev_day;
          open_915_today = get_915_open e index_key bid_today;
          bid_data = \<lparr>bd_ltp_330 = ltp_330_prev, bd_open_915 = open_915_today,
                      bd_gap = None, bd_gap_pct = None, bd_direction = None,
                      bd_prev_date = bid_prev_day, bd_today_date = bid_today,
                      bd_market_open = is_market_open\<rparr>
      in if truthy_num ltp_330_prev \<and> truthy_num open_915_today then
           (let gap = py_round2 (fsub (the open_915_today) (the ltp_330_prev))
            in case truediv gap (the ltp_330_prev) of
                 Inl err \<Rightarrow> Inl err
               | Inr q \<Rightarrow>
                   Inr (bid_data\<lparr>bd_gap := Some gap,
                          bd_gap_pct := Some (py_round2 (fmul q (Fin 100))),
                          bd_direction :=
                            Some (if gt_zero gap then Up
                                  else if lt_zero gap then Down else Flat)\<rparr>))
         else Inr bid_data)"

text \<open>The PriceGap part (\<^verbatim>\<open>server.py\<close> lines 348 to 367).\<close>

definition server_pricegap_data :: "env \<Rightarrow> string \<Rightarrow> error + pricegap_data" where
  "server_pricegap_data e index_key =
     (let (pricegap_date, is_after_close) = get_trading_days_pricegap (env_now e);
          ltp_330 = get_330_ltp e index_key pricegap_date;
          daily_close = env_daily_close e index_key;
          pricegap_data = \<lparr>pg_ltp_330 = ltp_330, pg_daily_close = daily_close,
                           pg_gap = None, pg_gap_pct = None, pg_direction = None,
                           pg_date = pricegap_date\<rparr>
      in if truthy_num ltp_330 \<and> truthy_num daily_close then
           (let gap = py_round2 (fsub (the ltp_330) (the daily_close))
            in case truediv gap (the daily_close) of
                 Inl err \<Rightarrow> Inl err
               | Inr q \<Rightarrow>
                   Inr (pricegap_data\<lparr>pg_gap := Some gap,
                          pg_gap_pct := Some (py_round2 (fmul q (Fin 100))),
                          pg_direction :=
                            Some (if gt_zero gap then Up
                                  else if lt_zero gap then Down else Flat)\<rparr>))
         else Inr pricegap_data)"

text \<open>
  The table \<^verbatim>\<open>PREMIUM_PCT\<close> and the lookup \<^verbatim>\<open>PREMIUM_PCT.get(inst_dte, 0.54)\<close>. A
  literal such as \<^verbatim>\<open>0.54\<close> is the float nearest to that decimal.
\<close>

definition PREMIUM_PCT :: "(int \<times> pyfloat) list" where
  "PREMIUM_PCT =
     [(0, binary64 (54 / 100)), (1, binary64 (81 / 100)), (2, binary64 (105 / 100)),
      (3, binary64 (120 / 100)), (4, binary64 (138 / 100))]"

definition premium_pct_get :: "int \<Rightarrow> pyfloat" where
  "premium_pct_get inst_dte =
     (case map_of PREMIUM_PCT inst_dte of Some pct \<Rightarrow> pct | None \<Rightarrow> binary64 (54 / 100))"

text \<open>
  One round of the loop \<^verbatim>\<open>for inst in ["NIFTY", "SENSEX"]\<close> (\<^verbatim>\<open>server.py\<close> lines 379 to
  392): the rows it appends to \<^verbatim>\<open>coverage_data["instruments"]\<close>. The divisor of the
  premium is the constant 100, so that division cannot raise.
\<close>

definition coverage_rows :: "env \<Rightarrow> instrument \<Rightarrow> coverage_row list" where
  "coverage_rows e inst =
     (let found = get_dte_for_instrument_tomorrow e inst;
          spot = env_spot_price e inst
      in case found of
           None \<Rightarrow> []
         | Some (inst_dte, expiry) \<Rightarrow>
             if truthy_num spot then
               (let pct = premium_pct_get inst_dte;
                    premium = py_round2 (fquot (fmul (the spot) pct) (Fin 100))
                in [\<lparr>cv_name = inst, cv_dte = inst_dte, cv_spot = the spot,
                      cv_pct = pct, cv_premium = premium\<rparr>])
             else [])"

text \<open>
  \<^verbatim>\<open>get_all_signal_data\<close> (\<^verbatim>\<open>server.py\<close> lines 313 to 406). The SixthSense table, the
  timestamp and the printed date of the coverage block are left out of the bundle: they
  do not feed any of the other fields.
\<close>

definition get_all_signal_data :: "env \<Rightarrow> error + signal_bundle" where
  "get_all_signal_data e =
     (if \<not> truthy_str (env_access_token e) then Inl NoAccessToken
      else case get_nearest_expiry_instrument e of
        None \<Rightarrow> Inl NoValidExpiry
      | Some (instrument, expiry_date, dte) \<Rightarrow>
          (let index_key = index_key_of instrument
           in case server_bid_data e index_key of
                Inl err \<Rightarrow> Inl err
              | Inr bid_data \<Rightarrow>
                  (case server_pricegap_data e index_key of
                     Inl err \<Rightarrow> Inl err
                   | Inr pricegap_data \<Rightarrow>
                       (let coverage = coverage_rows e NIFTY @ coverage_rows e SENSEX;
                            trading_day_dte = max 0 (dte - 1)
                        in Inr \<lparr>b_instrument = instrument, b_expiry_date = expiry_date,
                                b_dte = trading_day_dte, b_bid = bid_data,
                                b_pricegap = pricegap_data, b_coverage = coverage\<rparr>))))"

section \<open>Notions used to state the properties\<close>

text \<open>
  The time window of the 3:30 PM extraction in the words of the specification: hour below
  15, or hour 15 and minute at most 29. A candle qualifies when its timestamp parses to a
  time in the window.
\<close>

definition in_ltp_window :: "nat \<times> nat \<Rightarrow> bool" where
  "in_ltp_window t = (fst t < 15 \<or> (fst t = 15 \<and> snd t \<le> 29))"

definition qualifies :: "(string \<Rightarrow> (nat \<times> nat) option) \<Rightarrow> candle \<Rightarrow> bool" where
  "qualifies fromiso c = (case fromiso (c_ts c) of None \<Rightarrow> False | Some t \<Rightarrow> in_ltp_window t)"

text \<open>
  The invariant of the scan of \<^verbatim>\<open>get_330_ltp\<close>: what the loop variables hold after the
  candles \<open>cs\<close> have been scanned.
\<close>

definition scanned ::
  "(string \<Rightarrow> (nat \<times> nat) option) \<Rightarrow> candle list \<Rightarrow> candle option \<times> (nat \<times> nat) option
     \<Rightarrow> bool" where
  "scanned fromiso cs st =
     (case st of
        (None, None) \<Rightarrow> (\<forall>c \<in> set cs. \<not> qualifies fromiso c)
      | (Some b, Some t) \<Rightarrow>
          b \<in> set cs \<and> fromiso (c_ts b) = Some t \<and> in_ltp_window t \<and>
          (\<forall>c \<in> set cs. \<forall>u. fromiso (c_ts c) = Some u \<and> in_ltp_window u \<longrightarrow> \<not> tuple_gt u t)
      | _ \<Rightarrow> False)"

text \<open>
  The GapResult of the specification for an earlier and a later price: the gap rounded to
  two digits, the percentage of the earlier price rounded to two digits, and the direction
  by the sign of the gap, where the gap is a number.
\<close>

definition gap_spec :: "pyfloat \<Rightarrow> pyfloat \<Rightarrow> gap_result \<Rightarrow> bool" where
  "gap_spec earlier later g \<longleftrightarrow>
     g_gap g = py_round2 (fsub later earlier) \<and>
     g_gap_pct g = py_round2 (fmul (fquot (g_gap g) earlier) (Fin 100)) \<and>
     (g_direction g = Up \<longleftrightarrow> gt_zero (g_gap g)) \<and>
     (g_direction g = Down \<longleftrightarrow> lt_zero (g_gap g)) \<and>
     (g_gap g \<noteq> NaN \<longrightarrow> (g_direction g = Flat \<longleftrightarrow> g_gap g = Fin 0))"

text \<open>
  The expiry selection in the words of the specification: for each instrument the first
  expiry whose DTE lies in the inclusive window from 0 to \<open>hi\<close>; of two valid ones the
  smaller DTE, Nifty on a tie; the only valid one; none when there is none.
\<close>

definition window_first :: "(string \<Rightarrow> int) \<Rightarrow> int \<Rightarrow> string list \<Rightarrow> string option" where
  "window_first dte hi expiries = find (\<lambda>x. 0 \<le> dte x \<and> dte x \<le> hi) expiries"

definition spec_selection ::
  "(string \<Rightarrow> int) \<Rightarrow> string option \<Rightarrow> string option \<Rightarrow> (instrument \<times> string \<times> int) option" where
  "spec_selection dte nifty sensex =
     (case (nifty, sensex) of
        (Some n, Some s) \<Rightarrow>
          if dte s < dte n then Some (SENSEX, s, dte s) else Some (NIFTY, n, dte n)
      | (Some n, None) \<Rightarrow> Some (NIFTY, n, dte n)
      | (None, Some s) \<Rightarrow> Some (SENSEX, s, dte s)
      | (None, None) \<Rightarrow> None)"

text \<open>
  A sample run for the worked examples: Monday 2024-01-08 (ordinal 738893) at 10:00, with
  the expiry lists as parameters. The Nifty candles of Friday 2024-01-05 hold an
  unreadable timestamp and entries at 15:25, 15:29 and 15:31; Monday has its 09:15 candle.
\<close>

definition sample_strptime :: "string \<Rightarrow> int option" where
  "sample_strptime =
     map_of [(''2024-01-08'', 738893), (''2024-01-09'', 738894), (''2024-01-10'', 738895),
             (''2024-01-11'', 738896), (''2024-01-12'', 738897)]"

definition sample_fromisoformat :: "string \<Rightarrow> (nat \<times> nat) option" where
  "sample_fromisoformat =
     map_of [(''2024-01-05T15:25:00+05:30'', (15, 25)),
             (''2024-01-05T15:29:00+05:30'', (15, 29)),
             (''2024-01-05T15:31:00+05:30'', (15, 31)),
             (''2024-01-08T09:15:00+05:30'', (9, 15))]"

definition friday_candles :: "candle list" where
  "friday_candles =
     [\<lparr>c_ts = ''2024-01-05T15:25:00+05:30'', c_vals = map Fin [24780, 24795, 24775, 24790, 1000]\<rparr>,
      \<lparr>c_ts = ''not a timestamp'', c_vals = map Fin [1, 2, 3, 4, 5]\<rparr>,
      \<lparr>c_ts = ''2024-01-05T15:31:00+05:30'', c_vals = map Fin [24900, 24920, 24890, 24910, 1000]\<rparr>,
      \<lparr>c_ts = ''2024-01-05T15:29:00+05:30'', c_vals = map Fin [24790, 24805, 24785, 24800, 1000]\<rparr>]"

definition monday_candles :: "candle list" where
  "monday_candles =
     [\<lparr>c_ts = ''2024-01-08T09:15:00+05:30'', c_vals = map Fin [24850, 24860, 24840, 24855, 1000]\<rparr>]"

definition sample_env :: "string list \<Rightarrow> string list \<Rightarrow> env" where
  "sample_env nifty_expiries sensex_expiries =
     \<lparr>env_now = \<lparr>dt_day = 738893, dt_hour = 10, dt_minute = 0\<rparr>,
      env_access_token = Some ''token'',
      env_expiry_dates = (\<lambda>i. case i of NIFTY \<Rightarrow> nifty_expiries | SENSEX \<Rightarrow> sensex_expiries),
      env_candles = (\<lambda>key date.
         if date = 738890 then Some friday_candles
         else if date = 738893 then Some monday_candles else None),
      env_daily_close = (\<lambda>key. Some (Fin 24790)),
      env_spot_price = (\<lambda>i. case i of NIFTY \<Rightarrow> Some (Fin 25000) | SENSEX \<Rightarrow> None),
      env_strptime = sample_strptime,
      env_fromisoformat = sample_fromisoformat\<rparr>"

section \<open>Facts about the weekend loop\<close>

lemma weekday_range: "0 \<le> weekday d \<and> weekday d < 7"
  by (simp add: weekday_def)

lemma weekday_pred: "5 \<le> weekday d \<Longrightarrow> weekday (d - 1) = weekday d - 1"
  unfolding weekday_def by presburger

text \<open>The loop in closed form: Saturday goes to Friday, Sunday to Friday, a weekday stays.\<close>

lemma skip_weekends_closed:
  "skip_weekends d = (if weekday d = 5 then d - 1 else if weekday d = 6 then d - 2 else d)"
proof -
  consider (sat) "weekday d = 5" | (sun) "weekday d = 6" | (wk) "weekday d < 5"
    using weekday_range [of d] by linarith
  then show ?thesis
  proof cases
    case sat
    then have "weekday (d - 1) = 4" using weekday_pred [of d] by simp
    then have "skip_weekends (d - 1) = d - 1"
      by (simp add: skip_weekends.simps [of "d - 1"])
    with sat show ?thesis by (simp add: skip_weekends.simps [of d])
  next
    case sun
    then have w1: "weekday (d - 1) = 5" using weekday_pred [of d] by simp
    then have "weekday (d - 2) = 4" using weekday_pred [of "d - 1"] by simp
    then have "skip_weekends (d - 2) = d - 2"
      by (simp add: skip_weekends.simps [of "d - 2"])
    with w1 have "skip_weekends (d - 1) = d - 2"
      by (simp add: skip_weekends.simps [of "d - 1"])
    with sun show ?thesis by (simp add: skip_weekends.simps [of d])
  next
    case wk
    then show ?thesis by (simp add: skip_weekends.simps [of d])
  qed
qed

lemma skip_weekends_weekday: "weekday (skip_weekends d) < 5"
  unfolding skip_weekends_closed weekday_def by presburger

lemma skip_weekends_le: "skip_weekends d \<le> d"
  by (simp add: skip_weekends_closed)

lemma skip_weekends_ge: "d - 2 \<le> skip_weekends d"
  by (simp add: skip_weekends_closed)

lemma skip_weekends_fixed: "skip_weekends d = d \<longleftrightarrow> weekday d < 5"
  using weekday_range [of d] by (auto simp: skip_weekends_closed)

text \<open>Every day the loop steps over is a weekend day: it stops at the most recent weekday.\<close>

lemma skip_weekends_most_recent:
  "skip_weekends d < k \<Longrightarrow> k \<le> d \<Longrightarrow> 5 \<le> weekday k"
  unfolding skip_weekends_closed weekday_def by (auto split: if_splits; presburger)

lemma prev_weekday_closed:
  "skip_weekends (d - 1) =
     (if weekday d = 0 then d - 3 else if weekday d = 6 then d - 2 else d - 1)"
  unfolding skip_weekends_closed weekday_def by presburger

lemma server_bid_days_same: "server_get_trading_days_bid now = get_trading_days_bid now"
  by (simp add: server_get_trading_days_bid_def get_trading_days_bid_def)

lemma weekday_shift: "weekday (d - k) = (weekday d - k) mod 7"
proof -
  have "(d - k + 6) mod 7 = (d + 6 - k) mod 7" by (simp add: algebra_simps)
  also have "\<dots> = ((d + 6) mod 7 - k) mod 7" by (simp only: mod_diff_left_eq)
  finally show ?thesis by (simp only: weekday_def)
qed

lemma weekday_cases:
  obtains "weekday d = 0" | "weekday d = 1" | "weekday d = 2" | "weekday d = 3"
    | "weekday d = 4" | "weekday d = 5" | "weekday d = 6"
  using weekday_range [of d]
  by (cases "weekday d = 0"; cases "weekday d = 1"; cases "weekday d = 2";
      cases "weekday d = 3"; cases "weekday d = 4"; cases "weekday d = 5"; simp)

lemma skip_weekends_idem: "skip_weekends (skip_weekends d) = skip_weekends d"
  using skip_weekends_weekday [of d] by (simp add: skip_weekends_fixed)

section \<open>The BID resolver\<close>

text \<open>
  Claim C1. For every wall-clock time \<open>now\<close>, the BID resolver returns
  \<open>market_open\<close> true exactly when the date of \<open>now\<close> equals that date rolled
  backward past any weekend and the clock time is at or after 09:15. Whenever
  \<open>market_open\<close> is false, the returned \<open>today\<close> is the rolled date moved back one
  more calendar day and rolled backward again past any weekend; in particular a Monday
  before 09:15 resolves to the preceding Friday, three days earlier. The copy in
  \<^verbatim>\<open>server.py\<close> returns the same triple.
\<close>

theorem bid_resolver_market_open:
  assumes "get_trading_days_bid now = (prev_day, today, market_open)"
  shows "(market_open \<longleftrightarrow>
            dt_day now = skip_weekends (dt_day now) \<and>
            (9 < dt_hour now \<or> dt_hour now = 9 \<and> 15 \<le> dt_minute now)) \<and>
         (\<not> market_open \<longrightarrow> today = skip_weekends (skip_weekends (dt_day now) - 1)) \<and>
         (\<not> market_open \<and> weekday (dt_day now) = 0 \<longrightarrow>
            today = dt_day now - 3 \<and> weekday today = 4) \<and>
         server_get_trading_days_bid now = get_trading_days_bid now"
proof -
  have mo: "market_open \<longleftrightarrow>
            dt_day now = skip_weekends (dt_day now) \<and>
            (9 < dt_hour now \<or> dt_hour now = 9 \<and> 15 \<le> dt_minute now)"
    using assms by (auto simp: get_trading_days_bid_def Let_def)
  have shift: "\<not> market_open \<longrightarrow> today = skip_weekends (skip_weekends (dt_day now) - 1)"
    using assms by (auto simp: get_trading_days_bid_def Let_def split: if_splits)
  have monday: "\<not> market_open \<and> weekday (dt_day now) = 0 \<longrightarrow>
            today = dt_day now - 3 \<and> weekday today = 4"
  proof
    assume a: "\<not> market_open \<and> weekday (dt_day now) = 0"
    then have "skip_weekends (dt_day now) = dt_day now" by (simp add: skip_weekends_fixed)
    with a shift have t: "today = dt_day now - 3" by (simp add: prev_weekday_closed)
    from a have "weekday (dt_day now) = 0" by simp
    then have "weekday (dt_day now - 3) = 4" unfolding weekday_def by presburger
    with t show "today = dt_day now - 3 \<and> weekday today = 4" by simp
  qed
  from mo shift monday server_bid_days_same [of now] show ?thesis by blast
qed

text \<open>
  Monday 2024-01-08 (ordinal 738893) at 08:30: the market is not open, and the pair is
  Thursday 2024-01-04 and Friday 2024-01-05.
\<close>

theorem bid_resolver_market_open_witness:
  "get_trading_days_bid \<lparr>dt_day = 738893, dt_hour = 8, dt_minute = 30\<rparr>
     = (738889, 738890, False) \<and>
   weekday 738893 = 0 \<and> weekday 738890 = 4 \<and>
   738890 = skip_weekends (skip_weekends 738893 - 1)"
  using bid_resolver_market_open
          [of "\<lparr>dt_day = 738893, dt_hour = 8, dt_minute = 30\<rparr>" 738889 738890 False]
  by (simp add: get_trading_days_bid_def skip_weekends_closed weekday_def)

text \<open>
  Claim C2. For every wall-clock time \<open>now\<close>, a Saturday or a Sunday included, every
  date the BID resolver and the PriceGap resolver return falls on Monday to Friday; the
  BID resolver's \<open>prev_day\<close> is at least one calendar day before its \<open>today\<close>, neither
  end of that pair is a weekend day, and every day strictly between the two is one.
\<close>

theorem resolved_days_are_weekdays:
  assumes "get_trading_days_bid now = (prev_day, today, market_open)"
    and "get_trading_days_pricegap now = (date, data_available)"
  shows "weekday today \<in> {0..4} \<and> weekday prev_day \<in> {0..4} \<and> weekday date \<in> {0..4} \<and>
         prev_day + 1 \<le> today \<and>
         (\<forall>k. prev_day < k \<and> k < today \<longrightarrow> weekday k \<in> {5, 6})"
proof -
  have wk: "weekday (skip_weekends d) \<in> {0..4}" for d
    using skip_weekends_weekday [of d] weekday_range [of "skip_weekends d"] by simp
  have p: "prev_day = skip_weekends (today - 1)"
    using assms(1) by (auto simp: get_trading_days_bid_def Let_def)
  have t: "today = skip_weekends (dt_day now) \<or>
           today = skip_weekends (skip_weekends (dt_day now) - 1)"
    using assms(1) by (auto simp: get_trading_days_bid_def Let_def split: if_splits)
  have d: "\<exists>x. date = skip_weekends x"
    using assms(2) by (auto simp: get_trading_days_pricegap_def Let_def split: if_splits)
  have between: "weekday k \<in> {5, 6}" if "prev_day < k \<and> k < today" for k
  proof -
    from that p have "5 \<le> weekday k"
      using skip_weekends_most_recent [of "today - 1" k] by simp
    with weekday_range [of k] show ?thesis by auto
  qed
  from p have gap: "prev_day + 1 \<le> today" using skip_weekends_le [of "today - 1"] by simp
  from t wk have wt: "weekday today \<in> {0..4}" by auto
  from p wk have wp: "weekday prev_day \<in> {0..4}" by simp
  from d wk have wd: "weekday date \<in> {0..4}" by auto
  from wt wp wd gap between show ?thesis by blast
qed

text \<open>
  Sunday 2024-01-07 (ordinal 738892) at 11:00: the BID pair is Wednesday 2024-01-03 and
  Thursday 2024-01-04, the PriceGap date is Friday 2024-01-05.
\<close>

theorem resolved_days_are_weekdays_witness:
  "get_trading_days_bid \<lparr>dt_day = 738892, dt_hour = 11, dt_minute = 0\<rparr>
     = (738888, 738889, False) \<and>
   get_trading_days_pricegap \<lparr>dt_day = 738892, dt_hour = 11, dt_minute = 0\<rparr>
     = (738890, False) \<and>
   weekday 738892 = 6 \<and>
   weekday 738889 \<in> {0..4} \<and> weekday 738888 \<in> {0..4} \<and> weekday 738890 \<in> {0..4}"
  using resolved_days_are_weekdays
          [of "\<lparr>dt_day = 738892, dt_hour = 11, dt_minute = 0\<rparr>" 738888 738889 False 738890 False]
  by (simp add: get_trading_days_bid_def get_trading_days_pricegap_def
        skip_weekends_closed weekday_def)

section \<open>The PriceGap resolver\<close>

text \<open>
  Claim C3. For every wall-clock time \<open>now\<close>, the PriceGap resolver returns
  \<open>data_available\<close> true exactly when the weekend-rolled \<open>today\<close> equals the date of
  \<open>now\<close> and the clock time is at or after 15:30, and then returns that date. When
  \<open>data_available\<close> is false, \<open>today\<close> is moved back one calendar day only if it
  equalled the date of \<open>now\<close>, and is then rolled backward past any weekend before it is
  returned; on a weekend \<open>now\<close> that is the rolled date itself.
\<close>

theorem pricegap_resolver_data_available:
  assumes "get_trading_days_pricegap now = (date, data_available)"
  shows "(data_available \<longleftrightarrow>
            skip_weekends (dt_day now) = dt_day now \<and>
            (15 < dt_hour now \<or> dt_hour now = 15 \<and> 30 \<le> dt_minute now)) \<and>
         (data_available \<longrightarrow> date = dt_day now) \<and>
         (\<not> data_available \<and> skip_weekends (dt_day now) = dt_day now \<longrightarrow>
            date = skip_weekends (dt_day now - 1)) \<and>
         (\<not> data_available \<and> skip_weekends (dt_day now) \<noteq> dt_day now \<longrightarrow>
            date = skip_weekends (skip_weekends (dt_day now)) \<and>
            date = skip_weekends (dt_day now))"
  using assms skip_weekends_idem [of "dt_day now"]
  by (auto simp: get_trading_days_pricegap_def Let_def split: if_splits)

text \<open>Monday 2024-01-08 at 10:00: no data for the day yet, the date is Friday 2024-01-05.\<close>

theorem pricegap_resolver_data_available_witness:
  "get_trading_days_pricegap \<lparr>dt_day = 738893, dt_hour = 10, dt_minute = 0\<rparr>
     = (738890, False) \<and>
   skip_weekends 738893 = 738893 \<and> 738890 = skip_weekends (738893 - 1)"
  using pricegap_resolver_data_available
          [of "\<lparr>dt_day = 738893, dt_hour = 10, dt_minute = 0\<rparr>" 738890 False]
  by (simp add: get_trading_days_pricegap_def skip_weekends_closed weekday_def)

section \<open>The three BID day resolvers compared\<close>

text \<open>
  On a Monday to Friday the three resolvers agree; on a Saturday or a Sunday
  \<^verbatim>\<open>get_trading_days\<close> of \<^verbatim>\<open>bid.py\<close> takes the preceding Friday as \<open>today\<close>, while
  \<^verbatim>\<open>get_trading_days_bid\<close> moves the Friday it has already rolled to back once more.
\<close>

lemma bid_day_resolvers_agree_on_weekdays:
  "(get_trading_days now
      = (fst (get_trading_days_bid now), fst (snd (get_trading_days_bid now)))
    \<longleftrightarrow> weekday (dt_day now) \<in> {0..4}) \<and>
   (weekday (dt_day now) \<in> {5, 6} \<longrightarrow>
      snd (get_trading_days now) = skip_weekends (dt_day now) \<and>
      fst (snd (get_trading_days_bid now)) = skip_weekends (dt_day now) - 1) \<and>
   server_get_trading_days_bid now = get_trading_days_bid now"
proof -
  define d where "d = dt_day now"
  have eq: "(get_trading_days now
      = (fst (get_trading_days_bid now), fst (snd (get_trading_days_bid now)))
    \<longleftrightarrow> weekday d \<in> {0..4}) \<and>
   (weekday d \<in> {5, 6} \<longrightarrow>
      snd (get_trading_days now) = skip_weekends d \<and>
      fst (snd (get_trading_days_bid now)) = skip_weekends d - 1)"
    by (cases d rule: weekday_cases)
       (auto simp: get_trading_days_def get_trading_days_bid_def Let_def d_def [symmetric]
             skip_weekends_closed weekday_shift)
  with server_bid_days_same [of now] show ?thesis by (simp add: d_def)
qed

text \<open>
  Claim C9 says that \<^verbatim>\<open>get_trading_days\<close> of \<^verbatim>\<open>bid.py\<close> returns the same
  \<open>(prev_day, today)\<close> as \<^verbatim>\<open>get_trading_days_bid\<close> of \<^verbatim>\<open>signal.py\<close> and of \<^verbatim>\<open>server.py\<close>
  for every \<open>now\<close>. The code does not do that on a weekend. On Saturday 2024-01-06
  (ordinal 738891) at 10:00 \<^verbatim>\<open>bid.py\<close> returns Thursday 2024-01-04 and Friday 2024-01-05,
  the pair of the last completed overnight gap; \<^verbatim>\<open>signal.py\<close> and \<^verbatim>\<open>server.py\<close> return
  Wednesday 2024-01-03 and Thursday 2024-01-04, although the PriceGap resolver of the same
  files resolves the same moment to Friday 2024-01-05.
\<close>

theorem bid_day_resolvers_differ_on_saturday:
  "get_trading_days \<lparr>dt_day = 738891, dt_hour = 10, dt_minute = 0\<rparr> = (738889, 738890) \<and>
   get_trading_days_bid \<lparr>dt_day = 738891, dt_hour = 10, dt_minute = 0\<rparr>
     = (738888, 738889, False) \<and>
   server_get_trading_days_bid \<lparr>dt_day = 738891, dt_hour = 10, dt_minute = 0\<rparr>
     = (738888, 738889, False) \<and>
   get_trading_days_pricegap \<lparr>dt_day = 738891, dt_hour = 10, dt_minute = 0\<rparr>
     = (738890, False) \<and>
   get_trading_days \<lparr>dt_day = 738891, dt_hour = 10, dt_minute = 0\<rparr>
     \<noteq> (fst (get_trading_days_bid \<lparr>dt_day = 738891, dt_hour = 10, dt_minute = 0\<rparr>),
         fst (snd (get_trading_days_bid \<lparr>dt_day = 738891, dt_hour = 10, dt_minute = 0\<rparr>)))"
  by (simp add: get_trading_days_def get_trading_days_bid_def server_get_trading_days_bid_def
        get_trading_days_pricegap_def skip_weekends_closed weekday_def)

section \<open>The expiry selector\<close>

lemma expiry_scan_find:
  "expiry_scan sp today hi xs =
     (case find (\<lambda>x. 0 \<le> calculate_dte sp x today \<and> calculate_dte sp x today \<le> hi) xs of
        None \<Rightarrow> (999, None)
      | Some x \<Rightarrow> (calculate_dte sp x today, Some x))"
  by (induction xs) (simp_all add: Let_def)

lemma window_nonempty:
  assumes "sp [] = None" and "0 \<le> calculate_dte sp x today" and "calculate_dte sp x today \<le> 2"
  shows "x \<noteq> []"
  using assms by (auto simp: calculate_dte_def)

lemma find_window_nonempty:
  assumes "sp [] = None" and "hi \<le> 2"
    and "find (\<lambda>x. 0 \<le> calculate_dte sp x today \<and> calculate_dte sp x today \<le> hi) xs = Some x"
  shows "x \<noteq> [] \<and> 0 \<le> calculate_dte sp x today \<and> calculate_dte sp x today \<le> hi"
proof -
  from assms(3) have "0 \<le> calculate_dte sp x today \<and> calculate_dte sp x today \<le> hi"
    by (auto simp: find_Some_iff)
  with assms(1,2) window_nonempty [of sp x today] show ?thesis by auto
qed

text \<open>
  Claim C7. For every pair of expiry-date lists (ascending or not), the expiry selector
  takes for each instrument the first expiry whose DTE lies in the inclusive window
  [0, 2] for Nifty and [0, 1] for Sensex. When both instruments have such an expiry it
  returns the one with the smaller DTE, and Nifty when the two are equal; when exactly
  one has, it returns that one; when neither has, it returns the no-valid-expiry outcome.
  The one fact used about the date parser is that it rejects the empty string.
\<close>

theorem expiry_selector_matches_spec:
  assumes "env_strptime e [] = None"
    and "dte = (\<lambda>x. calculate_dte (env_strptime e) x (dt_day (env_now e)))"
  shows "get_nearest_expiry_instrument e =
           spec_selection dte (window_first dte 2 (env_expiry_dates e NIFTY))
                              (window_first dte 1 (env_expiry_dates e SENSEX))"
proof -
  let ?n = "window_first dte 2 (env_expiry_dates e NIFTY)"
  let ?s = "window_first dte 1 (env_expiry_dates e SENSEX)"
  have n: "x \<noteq> [] \<and> 0 \<le> dte x \<and> dte x \<le> 2" if "?n = Some x" for x
    using that assms
      find_window_nonempty [of "env_strptime e" 2 "dt_day (env_now e)" "env_expiry_dates e NIFTY" x]
    by (simp add: window_first_def)
  have s: "x \<noteq> [] \<and> 0 \<le> dte x \<and> dte x \<le> 1" if "?s = Some x" for x
    using that assms
      find_window_nonempty [of "env_strptime e" 1 "dt_day (env_now e)" "env_expiry_dates e SENSEX" x]
    by (simp add: window_first_def)
  show ?thesis
  proof (cases ?n)
    case None
    note nn = this
    show ?thesis
    proof (cases ?s)
      case None
      with nn show ?thesis using assms(2)
        by (simp add: get_nearest_expiry_instrument_def expiry_scan_find window_first_def
              spec_selection_def truthy_str_def)
    next
      case (Some y)
      with nn s [of y] show ?thesis using assms(2)
        by (simp add: get_nearest_expiry_instrument_def expiry_scan_find window_first_def
              spec_selection_def truthy_str_def)
    qed
  next
    case (Some x)
    note nx = this
    show ?thesis
    proof (cases ?s)
      case None
      with nx n [of x] show ?thesis using assms(2)
        by (simp add: get_nearest_expiry_instrument_def expiry_scan_find window_first_def
              spec_selection_def truthy_str_def)
    next
      case (Some y)
      with nx n [of x] s [of y] show ?thesis using assms(2)
        by (auto simp: get_nearest_expiry_instrument_def expiry_scan_find window_first_def
              spec_selection_def truthy_str_def)
    qed
  qed
qed

text \<open>
  On Monday 2024-01-08: Nifty at DTE 2 against Sensex at DTE 1 gives Sensex; Nifty and
  Sensex both at DTE 1 give Nifty; with no expiry within either window there is no
  instrument.
\<close>

theorem expiry_selector_matches_spec_witness:
  "env_strptime (sample_env [''2024-01-10'', ''2024-01-11''] [''2024-01-09'']) [] = None \<and>
   get_nearest_expiry_instrument (sample_env [''2024-01-10'', ''2024-01-11''] [''2024-01-09''])
     = Some (SENSEX, ''2024-01-09'', 1) \<and>
   get_nearest_expiry_instrument (sample_env [''2024-01-09'', ''2024-01-11''] [''2024-01-09''])
     = Some (NIFTY, ''2024-01-09'', 1) \<and>
   get_nearest_expiry_instrument (sample_env [''2024-01-11''] [''2024-01-12'']) = None"
  using expiry_selector_matches_spec
          [of "sample_env [''2024-01-10'', ''2024-01-11''] [''2024-01-09'']"
              "\<lambda>x. calculate_dte sample_strptime x 738893"]
  by (simp add: get_nearest_expiry_instrument_def sample_env_def sample_strptime_def
        calculate_dte_def truthy_str_def)

section \<open>The 3:30 PM extraction\<close>

lemma ltp_scan_snoc:
  "ltp_scan fromiso (cs @ [c]) st = ltp_round fromiso (ltp_scan fromiso cs st) c"
  by (induction cs arbitrary: st) simp_all

lemma tuple_gt_trans: "tuple_gt a b \<Longrightarrow> \<not> tuple_gt c b \<Longrightarrow> \<not> tuple_gt c a"
  by (auto simp: tuple_gt_def)

lemma tuple_gt_irrefl: "\<not> tuple_gt a a"
  by (simp add: tuple_gt_def)

lemma scanned_round:
  assumes "scanned fromiso cs st"
  shows "scanned fromiso (cs @ [c]) (ltp_round fromiso st c)"
proof (cases "fromiso (c_ts c)")
  case None
  then have "ltp_round fromiso st c = st" by (simp add: ltp_round_def)
  moreover from None have "\<not> qualifies fromiso c" by (simp add: qualifies_def)
  ultimately show ?thesis using assms None
    by (auto simp: scanned_def split: option.splits prod.splits)
next
  case (Some u)
  show ?thesis
  proof (cases "in_ltp_window u")
    case False
    with Some have "ltp_round fromiso st c = st"
      by (cases u; cases st) (auto simp: ltp_round_def in_ltp_window_def)
    moreover from Some False have "\<not> qualifies fromiso c" by (simp add: qualifies_def)
    ultimately show ?thesis using assms Some False
      by (auto simp: scanned_def split: option.splits prod.splits)
  next
    case True
    show ?thesis
    proof (cases st)
      case (Pair b t)
      show ?thesis
      proof (cases t)
        case None
        with Pair assms have empty: "b = None \<and> (\<forall>x \<in> set cs. \<not> qualifies fromiso x)"
          by (auto simp: scanned_def split: option.splits)
        from Some True Pair None have "ltp_round fromiso st c = (Some c, Some u)"
          by (cases u) (auto simp: ltp_round_def in_ltp_window_def)
        with empty Some True show ?thesis
          by (auto simp: scanned_def qualifies_def tuple_gt_irrefl)
      next
        case (Some bt)
        note t = this
        with Pair assms obtain bc where b: "b = Some bc"
          by (auto simp: scanned_def split: option.splits)
        show ?thesis
        proof (cases "tuple_gt u bt")
          case gt: True
          with \<open>fromiso (c_ts c) = Some u\<close> True Pair t
          have round: "ltp_round fromiso st c = (Some c, Some u)"
            by (cases u) (auto simp: ltp_round_def in_ltp_window_def)
          have old: "\<forall>x \<in> set cs. \<forall>v. fromiso (c_ts x) = Some v \<and> in_ltp_window v
                       \<longrightarrow> \<not> tuple_gt v bt"
            using assms Pair t b by (simp add: scanned_def)
          have new: "\<not> tuple_gt v u"
            if "x \<in> set cs" "fromiso (c_ts x) = Some v" "in_ltp_window v" for x v
            using old that gt tuple_gt_trans [of u bt v] by blast
          from new round \<open>fromiso (c_ts c) = Some u\<close> True show ?thesis
            by (auto simp: scanned_def tuple_gt_irrefl)
        next
          case ngt: False
          with \<open>fromiso (c_ts c) = Some u\<close> True Pair t
          have "ltp_round fromiso st c = st"
            by (cases u) (auto simp: ltp_round_def in_ltp_window_def)
          with assms Pair t b ngt \<open>fromiso (c_ts c) = Some u\<close> True show ?thesis
            by (auto simp: scanned_def)
        qed
      qed
    qed
  qed
qed

lemma scanned_ltp_scan: "scanned fromiso cs (ltp_scan fromiso cs (None, None))"
proof (induction cs rule: rev_induct)
  case Nil
  show ?case by (simp add: scanned_def)
next
  case (snoc c cs)
  then show ?case by (simp add: ltp_scan_snoc scanned_round)
qed


lemma ltp_round_skip: "\<not> qualifies fromiso c \<Longrightarrow> ltp_round fromiso st c = st"
  by (cases st) (auto simp: qualifies_def ltp_round_def in_ltp_window_def split: option.splits)

lemma ltp_scan_filter:
  "ltp_scan fromiso (filter (qualifies fromiso) cs) st = ltp_scan fromiso cs st"
  by (induction cs arbitrary: st) (simp_all add: ltp_round_skip)

text \<open>
  Claim C4. For every sequence of minute candles, the 3:30 PM LTP extraction returns the
  close of a candle whose (hour, minute) is lexicographically greatest among all candles
  with hour below 15, or hour 15 and minute at most 29. Candles at or after 15:30 and
  candles whose timestamp does not parse change nothing: the result is the same as on the
  list with them removed, and the scan goes on after them. The result is absent when no
  candle qualifies. (The close is read as \<^verbatim>\<open>candle[4]\<close>, which the chosen candle has
  whenever it is a full candle.)
\<close>

theorem ltp_330_is_latest_close_before_1530:
  "(\<not> (\<exists>c \<in> set candles. qualifies fromiso c) \<longrightarrow> ltp_of_candles fromiso candles = None) \<and>
   ((\<exists>c \<in> set candles. qualifies fromiso c) \<longrightarrow>
      (\<exists>b t. b \<in> set candles \<and> fromiso (c_ts b) = Some t \<and> in_ltp_window t \<and>
             (\<forall>c \<in> set candles. \<forall>u. fromiso (c_ts c) = Some u \<and> in_ltp_window u \<longrightarrow>
                fst u < fst t \<or> (fst u = fst t \<and> snd u \<le> snd t)) \<and>
             ltp_of_candles fromiso candles = candle_close b)) \<and>
   ltp_of_candles fromiso (filter (qualifies fromiso) candles) = ltp_of_candles fromiso candles"
proof -
  obtain b t where st: "ltp_scan fromiso candles (None, None) = (b, t)"
    by (cases "ltp_scan fromiso candles (None, None)")
  have sc: "scanned fromiso candles (b, t)"
    using scanned_ltp_scan [of fromiso candles] st by simp
  have none: "ltp_of_candles fromiso candles = None" if "\<not> (\<exists>c \<in> set candles. qualifies fromiso c)"
  proof (cases b)
    case None
    with st show ?thesis by (simp add: ltp_of_candles_def)
  next
    case (Some bc)
    with sc have "qualifies fromiso bc \<and> bc \<in> set candles"
      by (auto simp: scanned_def qualifies_def split: option.splits)
    with that show ?thesis by blast
  qed
  have some: "\<exists>b t. b \<in> set candles \<and> fromiso (c_ts b) = Some t \<and> in_ltp_window t \<and>
             (\<forall>c \<in> set candles. \<forall>u. fromiso (c_ts c) = Some u \<and> in_ltp_window u \<longrightarrow>
                fst u < fst t \<or> (fst u = fst t \<and> snd u \<le> snd t)) \<and>
             ltp_of_candles fromiso candles = candle_close b"
    if "\<exists>c \<in> set candles. qualifies fromiso c"
  proof (cases b)
    case None
    with sc have "\<forall>c \<in> set candles. \<not> qualifies fromiso c"
      by (auto simp: scanned_def split: option.splits)
    with that show ?thesis by blast
  next
    case (Some bc)
    with sc obtain bt where t: "t = Some bt"
      by (auto simp: scanned_def split: option.splits)
    from sc Some t have inv: "bc \<in> set candles \<and> fromiso (c_ts bc) = Some bt \<and> in_ltp_window bt \<and>
        (\<forall>c \<in> set candles. \<forall>u. fromiso (c_ts c) = Some u \<and> in_ltp_window u \<longrightarrow> \<not> tuple_gt u bt)"
      by (simp add: scanned_def)
    have le: "fst u < fst bt \<or> (fst u = fst bt \<and> snd u \<le> snd bt)" if "\<not> tuple_gt u bt" for u
      using that by (auto simp: tuple_gt_def)
    from st Some have "ltp_of_candles fromiso candles = candle_close bc"
      by (simp add: ltp_of_candles_def)
    with inv le show ?thesis by blast
  qed
  have "ltp_of_candles fromiso (filter (qualifies fromiso) candles) = ltp_of_candles fromiso candles"
    by (simp add: ltp_of_candles_def ltp_scan_filter)
  with none some show ?thesis by blast
qed

text \<open>
  The Friday candles hold 15:25, an unreadable timestamp, 15:31 and 15:29, in that order:
  the close of the 15:29 candle is returned.
\<close>

theorem ltp_330_is_latest_close_before_1530_witness:
  "(\<exists>c \<in> set friday_candles. qualifies sample_fromisoformat c) \<and>
   ltp_of_candles sample_fromisoformat friday_candles = Some (Fin 24800) \<and>
   filter (qualifies sample_fromisoformat) friday_candles
     = [friday_candles ! 0, friday_candles ! 3]"
  using ltp_330_is_latest_close_before_1530 [of friday_candles sample_fromisoformat]
  by (simp add: friday_candles_def sample_fromisoformat_def qualifies_def in_ltp_window_def
        ltp_of_candles_def ltp_round_def tuple_gt_def candle_close_def)

end
